theory Spec2Isabelle
  imports Main
begin

section \<open>The string buffer of \<^verbatim>\<open>consformatter.py\<close>\<close>

text \<open>
  \<^verbatim>\<open>class SimpleStringBuffer\<close> has one slot, \<^verbatim>\<open>buffer\<close>, a Python list of
  strings. \<^verbatim>\<open>__init__(self, string=None)\<close> appends \<^verbatim>\<open>string\<close> when it is truthy
  (neither \<^verbatim>\<open>None\<close> nor the empty string), \<^verbatim>\<open>__add__\<close> appends its argument and
  returns \<^verbatim>\<open>self\<close>, \<^verbatim>\<open>__str__\<close> joins the list with the empty separator.
\<close>

record SimpleStringBuffer =
  buffer :: "string list"

definition SimpleStringBuffer_init :: "string option \<Rightarrow> SimpleStringBuffer" where
  "SimpleStringBuffer_init s =
     \<lparr>buffer = (case s of None \<Rightarrow> [] | Some t \<Rightarrow> if t \<noteq> [] then [t] else [])\<rparr>"

definition SimpleStringBuffer_add :: "SimpleStringBuffer \<Rightarrow> string \<Rightarrow> SimpleStringBuffer" where
  "SimpleStringBuffer_add b s = b\<lparr>buffer := buffer b @ [s]\<rparr>"

definition SimpleStringBuffer_str :: "SimpleStringBuffer \<Rightarrow> string" where
  "SimpleStringBuffer_str b = concat (buffer b)"

text \<open>
  Buffers are Python objects: \<^verbatim>\<open>__add__\<close> mutates the object its left operand
  refers to and hands the same reference back. The object store maps a reference to the
  buffer it holds; every operation on an object takes the store and returns the new one.
\<close>

type_synonym ref = nat
type_synonym store = "ref \<Rightarrow> SimpleStringBuffer"

definition obj_init :: "store \<Rightarrow> ref \<Rightarrow> string option \<Rightarrow> store" where
  "obj_init h r s = h(r := SimpleStringBuffer_init s)"

definition obj_add :: "store \<Rightarrow> ref \<Rightarrow> string \<Rightarrow> store \<times> ref" where
  "obj_add h r s = (h(r := SimpleStringBuffer_add (h r) s), r)"

definition obj_str :: "store \<Rightarrow> ref \<Rightarrow> string" where
  "obj_str h r = SimpleStringBuffer_str (h r)"

text \<open>The expression \<^verbatim>\<open>b + s1 + s2 + ... + sn\<close>: each \<^verbatim>\<open>+\<close> is applied to the
  reference the previous one returned.\<close>

fun obj_add_all :: "store \<Rightarrow> ref \<Rightarrow> string list \<Rightarrow> store \<times> ref" where
  "obj_add_all h r [] = (h, r)"
| "obj_add_all h r (s # ss) = (case obj_add h r s of (h', r') \<Rightarrow> obj_add_all h' r' ss)"

section \<open>Python values the formatter handles\<close>

text \<open>
  Exceptions are values: a function that can raise returns \<open>py_error + 'a\<close>, the
  error on the left. \<open>bind_err\<close> is sequencing: the second computation runs only when
  the first did not raise.
\<close>

datatype py_error = AttributeError | KeyError | HandleError | ValueError | UnboundLocalError

definition bind_err :: "'e + 'a \<Rightarrow> ('a \<Rightarrow> 'e + 'b) \<Rightarrow> 'e + 'b" where
  "bind_err m k = (case m of Inl e \<Rightarrow> Inl e | Inr a \<Rightarrow> k a)"

fun sequence_err :: "('e + 'a) list \<Rightarrow> 'e + 'a list" where
  "sequence_err [] = Inr []"
| "sequence_err (m # ms) = bind_err m (\<lambda>a. bind_err (sequence_err ms) (\<lambda>as. Inr (a # as)))"

text \<open>A person handle is a Python string or \<^verbatim>\<open>None\<close>; \<^verbatim>\<open>if person_handle:\<close> holds for
  a non-empty string only, and \<^verbatim>\<open>'%s' % None\<close> is the text \<^verbatim>\<open>None\<close>.\<close>

type_synonym handle = "string option"

definition truthy :: "handle \<Rightarrow> bool" where
  "truthy h = (case h of None \<Rightarrow> False | Some s \<Rightarrow> s \<noteq> [])"

definition str_handle :: "handle \<Rightarrow> string" where
  "str_handle h = (case h of None \<Rightarrow> ''None'' | Some s \<Rightarrow> s)"

definition TAB :: string where
  "TAB = [CHR 0x09]"

definition NL :: string where
  "NL = [CHR 0x0A]"

text \<open>\<^verbatim>\<open>'%d' % n\<close> and \<^verbatim>\<open>str(n)\<close> of an integer: its decimal digits, a minus sign first
  when it is negative.\<close>

function str_nat :: "nat \<Rightarrow> string" where
  "str_nat n = (if n < 10 then [''0123456789'' ! n]
                else str_nat (n div 10) @ [''0123456789'' ! (n mod 10)])"
  by pat_completeness auto
termination
  by (relation "measure id") auto

definition str_int :: "int \<Rightarrow> string" where
  "str_int i = (if i < 0 then CHR ''-'' # str_nat (nat (- i)) else str_nat (nat i))"

text \<open>\<^verbatim>\<open>sep.join(xs)\<close>.\<close>

fun join :: "string \<Rightarrow> string list \<Rightarrow> string" where
  "join sep [] = []"
| "join sep [x] = x"
| "join sep (x # y # ys) = x @ sep @ join sep (y # ys)"

text \<open>\<^verbatim>\<open>html.escape(s)\<close> with its default \<^verbatim>\<open>quote=True\<close>: the five characters
  \<^verbatim>\<open>& < > " '\<close> are replaced by their entities.\<close>

definition escape_char :: "char \<Rightarrow> string" where
  \<open>escape_char c =
     (if c = CHR ''&'' then ''&amp;''
      else if c = CHR ''<'' then ''&lt;''
      else if c = CHR ''>'' then ''&gt;''
      else if c = CHR 0x22 then ''&quot;''
      else if c = CHR 0x27 then ''&#x27;''
      else [c])\<close>

definition escape :: "string \<Rightarrow> string" where
  "escape s = concat (map escape_char s)"

section \<open>What the formatter takes from Gramps\<close>

text \<open>
  The record store, the name and date displayers, the relationship calculator and the
  configuration belong to Gramps, not to this repository: they are parameters. A person
  is what the formatter reads of one: the displayed primary name, the gender, and the
  events \<^verbatim>\<open>get_birth_or_fallback\<close> and \<^verbatim>\<open>get_death_or_fallback\<close> find (or
  \<^verbatim>\<open>None\<close>). An event is its type, the text \<^verbatim>\<open>get_date\<close> displays for it and the
  type strings of its attributes. \<^verbatim>\<open>db.get_person_from_handle\<close> raises
  \<^verbatim>\<open>HandleError\<close> for a handle it does not hold: the database is a partial map.
\<close>

datatype gender = FEMALE | MALE | UNKNOWN

datatype EventType = BIRTH | DEATH | BAPTISM | BURIAL | OTHER_EVENT string

record event =
  event_type :: EventType
  event_date :: string
  attribute_types :: "string list"

record person =
  person_name :: string
  person_gender :: gender
  birth_or_fallback :: "event option"
  death_or_fallback :: "event option"

type_synonym db = "handle \<Rightarrow> person option"

text \<open>
  The class variables of \<^verbatim>\<open>ConsFormatter\<close> and the library functions it calls:
  \<^verbatim>\<open>relcalc.get_plural_relationship_string\<close>, the four date symbols (the plain ones
  are \<^verbatim>\<open>* ~ + []\<close>), Python's \<^verbatim>\<open>str.upper\<close>, and the floating-point logarithm,
  of which the formatter uses \<^verbatim>\<open>int(log(d, 2))\<close> only. \<^verbatim>\<open>math.log\<close> converts an
  integer to a double and calls the platform's C library on it, so what it returns is a
  function of that double: \<open>trunc_log2 x\<close> stands for \<^verbatim>\<open>int(log(x) / log(2.0))\<close> on
  the double of integral value \<open>x\<close>, and \<open>trunc_log2_huge d\<close> for the result on an
  integer too large for a double, which \<^verbatim>\<open>math.log\<close> computes another way.
\<close>

record env =
  get_plural_relationship_string :: "int \<Rightarrow> int \<Rightarrow> string"
  birth_symbol :: string
  baptism_symbol :: string
  death_symbol :: string
  burial_symbol :: string
  str_upper :: "string \<Rightarrow> string"
  trunc_log2 :: "int \<Rightarrow> int"
  trunc_log2_huge :: "int \<Rightarrow> int"

text \<open>
  The \<^verbatim>\<open>Pedigree\<close> class is imported from a module outside these sources; the
  formatter sees four of its methods. \<^verbatim>\<open>determine_pedigree_collapse\<close> is called with
  no argument and with \<^verbatim>\<open>1\<close>, and returns a dictionary from a common descendant's
  number to that descendant's common ancestors (a value the formatter only hands to
  \<^verbatim>\<open>order_ancestor_list\<close>, hence the type parameter). \<^verbatim>\<open>order_ancestor_list\<close>
  returns a dictionary from a tuple of primary ancestor numbers to a dictionary from a
  pair of generation numbers to a list of items, each an iterable of iterables of
  numbers. Dictionaries are association lists in iteration order.
  \<^verbatim>\<open>get_ancestor_by_number\<close> returns an ancestor, of which the formatter reads the
  person handle, or nothing the formatter can read one of (\<open>None\<close>).
\<close>

type_synonym relnum = "int \<times> int"
type_synonym rel_item = "int list list"
type_synonym rel = "(relnum \<times> rel_item list) list"

record 'c Pedigree =
  has_pedigree_collapse :: bool
  determine_pedigree_collapse :: "int option \<Rightarrow> (int \<times> 'c) list"
  get_ancestor_by_number :: "int \<Rightarrow> handle option"
  order_ancestor_list :: "'c \<Rightarrow> (int list \<times> rel) list"

text \<open>\<^verbatim>\<open>d[k]\<close> on a dictionary raises \<^verbatim>\<open>KeyError\<close> for a missing key.\<close>

definition dict_get :: "('k \<times> 'v) list \<Rightarrow> 'k \<Rightarrow> py_error + 'v" where
  "dict_get d k = (case map_of d k of None \<Rightarrow> Inl KeyError | Some v \<Rightarrow> Inr v)"

text \<open>\<^verbatim>\<open>pedigree.get_ancestor_by_number(n).get_person_handle()\<close>.\<close>

definition ancestor_handle :: "'c Pedigree \<Rightarrow> int \<Rightarrow> py_error + handle" where
  "ancestor_handle p n =
     (case get_ancestor_by_number p n of None \<Rightarrow> Inl AttributeError | Some h \<Rightarrow> Inr h)"

section \<open>Messages and limits\<close>

text \<open>The messages are the untranslated ones: \<^verbatim>\<open>_\<close> is taken as the identity. Strings
  are byte strings in UTF-8.\<close>

definition MSG_UNKNOWN_NAME :: string where
  "MSG_UNKNOWN_NAME = ''(unknown)''"

definition MSG_RELATIONSHIP :: string where
  "MSG_RELATIONSHIP = ''Relationship:''"

definition MSG_RELATIONSHIPS :: string where
  "MSG_RELATIONSHIPS = ''Relationships:''"

definition MSG_COMMON_ANC :: string where
  \<open>MSG_COMMON_ANC = ''"Common ancestor:''\<close>

definition MSG_COMMON_ANCS :: string where
  "MSG_COMMON_ANCS = ''Common ancestors:''"

definition MSG_MORE_SPOUSE_RELS :: string where
  "MSG_MORE_SPOUSE_RELS = ''More spouse relationships not shown.''"

definition MSG_MORE_RELS :: string where
  "MSG_MORE_RELS = ''More relationships not shown.''"

definition MSG_PED_COLLAPSE_ACTIVE :: string where
  "MSG_PED_COLLAPSE_ACTIVE = ''Pedigree collapse for active person''"

definition MSG_NO_PED_COLLAPSE :: string where
  "MSG_NO_PED_COLLAPSE = ''No pedigree collapse found.''"

text \<open>\<^verbatim>\<open>MSG_PED_COLLAPSE_AT % {'relationship': rel}\<close>.\<close>

definition MSG_PED_COLLAPSE_AT :: "string \<Rightarrow> string" where
  "MSG_PED_COLLAPSE_AT rel = ''Pedigree collapse at '' @ rel @ '':''"

definition MSG_MORE_PED_COLLAPSE :: string where
  "MSG_MORE_PED_COLLAPSE = ''More instances of pedigree collapse not shown.''"

definition MSG_NO_PARTNERS :: string where
  "MSG_NO_PARTNERS = ''No partners.''"

definition MSG_NOT_MARRIED :: string where
  "MSG_NOT_MARRIED = ''Not married.''"

definition MSG_PARTNER :: string where
  "MSG_PARTNER = ''Partner:''"

definition MSG_RELS_BET_ACTIVE_AND_PARTNER :: string where
  "MSG_RELS_BET_ACTIVE_AND_PARTNER = ''Relationships between active person and partners''"

definition MSG_NO_COMMON_ANCS :: string where
  "MSG_NO_COMMON_ANCS = ''No common ancestors found.''"

text \<open>\<^verbatim>\<open>TITLE_FORMAT % s\<close>.\<close>

definition TITLE_FORMAT :: "string \<Rightarrow> string" where
  \<open>TITLE_FORMAT s = ''<span size="larger" weight="bold" underline="single">'' @ s @ ''</span>''\<close>

definition PED_COLLAPSE_LIMIT :: nat where
  "PED_COLLAPSE_LIMIT = 10"

definition RELATIONSHIP_LIMIT :: nat where
  "RELATIONSHIP_LIMIT = 8"

text \<open>The marker of a half relationship, as the source file has it: a space and the
  bytes \<^verbatim>\<open>C3 82 C2 BD\<close>, whose last two are the sign for one half.\<close>

definition HALF_MARK :: string where
  "HALF_MARK = [CHR '' '', CHR 0xC3, CHR 0x82, CHR 0xC2, CHR 0xBD]"

section \<open>The logarithm of a position\<close>

text \<open>
  \<^verbatim>\<open>int.bit_length\<close>, and the conversion of a positive integer to the nearest double
  (53 significant bits, ties to the even significand), given as the integer the double
  holds. \<^verbatim>\<open>math.log(d, 2)\<close> raises \<^verbatim>\<open>ValueError\<close> for an integer \<^verbatim>\<open>d <= 0\<close>,
  converts \<^verbatim>\<open>d\<close> to a double when the conversion does not overflow, and goes another
  way when it does.
\<close>

function bit_length :: "nat \<Rightarrow> nat" where
  "bit_length n = (if n = 0 then 0 else Suc (bit_length (n div 2)))"
  by pat_completeness auto
termination
  by (relation "measure id") auto

definition to_double :: "nat \<Rightarrow> nat" where
  "to_double n =
     (let sh = bit_length n - 53 in
      if sh = 0 then n
      else
        let q = n div 2 ^ sh; r = n mod 2 ^ sh; half = 2 ^ (sh - 1) in
        (if half < r \<or> (r = half \<and> odd q) then q + 1 else q) * 2 ^ sh)"

definition py_int_log2 :: "env \<Rightarrow> int \<Rightarrow> py_error + int" where
  "py_int_log2 e d =
     (if d \<le> 0 then Inl ValueError
      else
        let x = to_double (nat d) in
        if x < 2 ^ 1024 then Inr (trunc_log2 e (int x)) else Inr (trunc_log2_huge e d))"

section \<open>The formatter\<close>

record 'c ConsFormatter =
  self_db :: db
  self_person_handle :: handle
  self_pedigree :: "'c Pedigree"
  self_spouse_pedigrees :: "(handle \<times> 'c Pedigree) list"
  self_person :: person
  self_gender :: gender

definition get_person_from_handle :: "db \<Rightarrow> handle \<Rightarrow> py_error + person" where
  "get_person_from_handle d h = (case d h of None \<Rightarrow> Inl HandleError | Some p \<Rightarrow> Inr p)"

definition ConsFormatter_init ::
  "db \<Rightarrow> handle \<Rightarrow> 'c Pedigree \<Rightarrow> (handle \<times> 'c Pedigree) list \<Rightarrow> py_error + 'c ConsFormatter" where
  "ConsFormatter_init d h ped spouse_peds =
     bind_err (get_person_from_handle d h) (\<lambda>p.
       Inr \<lparr>self_db = d, self_person_handle = h, self_pedigree = ped,
            self_spouse_pedigrees = spouse_peds, self_person = p,
            self_gender = person_gender p\<rparr>)"

definition fmt_date :: "env \<Rightarrow> event option \<Rightarrow> EventType \<Rightarrow> string" where
  "fmt_date e date preferred_event_type =
     (case date of
        None \<Rightarrow> []
      | Some ev \<Rightarrow>
          let sdate = event_date ev in
          if sdate = [] then []
          else
            let sdate = escape sdate; date_type = event_type ev in
            if preferred_event_type = BIRTH then
              (if date_type \<noteq> preferred_event_type
               then baptism_symbol e @ ''<i>'' @ sdate @ ''</i>''
               else birth_symbol e @ sdate)
            else
              (if date_type \<noteq> preferred_event_type
               then burial_symbol e @ ''<i>'' @ sdate @ ''</i>''
               else death_symbol e @ sdate))"

definition info_string :: "env \<Rightarrow> person \<Rightarrow> bool \<Rightarrow> string" where
  "info_string e p split =
     (let bdate = fmt_date e (birth_or_fallback p) BIRTH;
          ddate = fmt_date e (death_or_fallback p) DEATH in
      if split then
        (if bdate \<noteq> [] \<and> ddate \<noteq> [] then bdate @ NL @ ddate
         else if bdate \<noteq> [] then bdate else if ddate \<noteq> [] then ddate else [])
      else if bdate \<noteq> [] \<and> ddate \<noteq> [] then ''('' @ bdate @ '', '' @ ddate @ '')''
      else if bdate \<noteq> [] then ''('' @ bdate @ '')''
      else if ddate \<noteq> [] then ''('' @ ddate @ '')''
      else [])"

text \<open>
  \<^verbatim>\<open>format_person(cls, db, person_handle, prestr, poststr, link, dates, split)\<close>. The
  local \<^verbatim>\<open>person\<close> is bound in the first branch only; reading it unbound would raise
  \<^verbatim>\<open>UnboundLocalError\<close>.
\<close>

definition format_person ::
  "env \<Rightarrow> db \<Rightarrow> handle \<Rightarrow> string \<Rightarrow> string \<Rightarrow> bool \<Rightarrow> bool \<Rightarrow> bool \<Rightarrow> py_error + string" where
  \<open>format_person e d person_handle prestr poststr link dates split =
     bind_err
       (if truthy person_handle
        then bind_err (get_person_from_handle d person_handle)
               (\<lambda>p. Inr (Some p, person_name p, dates))
        else Inr (None, MSG_UNKNOWN_NAME, False))
       (\<lambda>(person, name, dates).
          let outstr = (if link
                        then ''<a href="P '' @ str_handle person_handle @ ''">'' @ name @ ''</a>''
                        else name)
          in bind_err
               (if dates
                then (case person of
                        None \<Rightarrow> Inl UnboundLocalError
                      | Some p \<Rightarrow>
                          let datestr = info_string e p split in
                          Inr (if datestr \<noteq> []
                               then outstr @ (if split then NL else '' '') @ datestr
                               else outstr))
                else Inr outstr)
               (\<lambda>outstr. Inr (prestr @ outstr @ poststr)))\<close>

definition get_title :: "env \<Rightarrow> 'c ConsFormatter \<Rightarrow> py_error + string" where
  \<open>get_title e f =
     format_person e (self_db f) (self_person_handle f)
       ''<span size="larger" weight="ultrabold">'' ''</span>'' False True False\<close>

definition no_spouses_string :: "env \<Rightarrow> person \<Rightarrow> string" where
  "no_spouses_string e p =
     (case death_or_fallback p of
        None \<Rightarrow> MSG_NO_PARTNERS
      | Some death_event \<Rightarrow>
          if event_type death_event \<noteq> DEATH then MSG_NO_PARTNERS
          else if \<exists>a \<in> set (attribute_types death_event). str_upper e a = ''UNMARRIED''
          then MSG_NOT_MARRIED
          else MSG_NO_PARTNERS)"

text \<open>
  \<^verbatim>\<open>format_common_ancestor_names(self, pedigree, common_ancestors)\<close>: a heading, then
  one line per ancestor number. The loop is a recursion over the numbers left, with the
  buffer as its state.
\<close>

fun names_loop ::
  "env \<Rightarrow> db \<Rightarrow> 'c Pedigree \<Rightarrow> SimpleStringBuffer \<Rightarrow> int list \<Rightarrow> py_error + SimpleStringBuffer" where
  "names_loop e d ped outstr [] = Inr outstr"
| "names_loop e d ped outstr (anc_num # rest) =
     (case ancestor_handle ped anc_num of
        Inl er \<Rightarrow> Inl er
      | Inr h \<Rightarrow>
          (case format_person e d h (TAB @ TAB) NL True True False of
             Inl er \<Rightarrow> Inl er
           | Inr s \<Rightarrow> names_loop e d ped (SimpleStringBuffer_add outstr s) rest))"

definition format_common_ancestor_names ::
  "env \<Rightarrow> db \<Rightarrow> 'c Pedigree \<Rightarrow> int list \<Rightarrow> py_error + string" where
  "format_common_ancestor_names e d ped common_ancestors =
     (let outstr = SimpleStringBuffer_init None;
          outstr = (if length common_ancestors = 1
                    then SimpleStringBuffer_add outstr (TAB @ ''<b>'' @ MSG_COMMON_ANC @ ''</b>'' @ NL)
                    else SimpleStringBuffer_add outstr (TAB @ ''<b>'' @ MSG_COMMON_ANCS @ ''</b>'' @ NL))
      in bind_err (names_loop e d ped outstr common_ancestors)
           (\<lambda>outstr. Inr (SimpleStringBuffer_str outstr)))"

text \<open>
  \<^verbatim>\<open>format_common_anc_rels(self, ped_index, rel, half, generations, active_gender,
  spouse_gender)\<close>. \<open>rellist_str\<close> is the inner loop over the items of one relationship;
  \<open>rels_loop\<close> is the loop over \<^verbatim>\<open>rel.keys()\<close>, whose state is the counter, the
  current \<^verbatim>\<open>tabs\<close> and the buffer.
\<close>

definition rellist_str :: "rel_item list \<Rightarrow> string" where
  "rellist_str rellist =
     concat (map (\<lambda>item. join '','' (map str_int (concat item)) @ '' '') rellist)"

fun rels_loop ::
  "env \<Rightarrow> int \<Rightarrow> rel \<Rightarrow> bool \<Rightarrow> int \<Rightarrow> gender \<Rightarrow> nat \<Rightarrow> string \<Rightarrow> SimpleStringBuffer
     \<Rightarrow> relnum list \<Rightarrow> py_error + SimpleStringBuffer" where
  "rels_loop e ped_index rel half generations active_gender count tabs outstr [] = Inr outstr"
| \<open>rels_loop e ped_index rel half generations active_gender count tabs outstr (relnum # rest) =
     (let count = count + 1 in
      if count > RELATIONSHIP_LIMIT
      then Inr (SimpleStringBuffer_add outstr
                  (TAB @ TAB @ TAB @ ''<b><i>'' @ MSG_MORE_RELS @ ''</i></b>'' @ NL))
      else
        (case dict_get rel relnum of
           Inl er \<Rightarrow> Inl er
         | Inr rellist \<Rightarrow>
             let num_rels = length rellist;
                 ways = (if num_rels > 1 then '' x'' @ str_int (int num_rels) else []);
                 relstr = (if active_gender = MALE
                           then get_plural_relationship_string e
                                  (fst relnum - generations) (snd relnum - generations)
                           else get_plural_relationship_string e
                                  (snd relnum - generations) (fst relnum - generations));
                 relstr = relstr @ (if half \<or> ways \<noteq> [] then '','' else [])
                            @ (if half then HALF_MARK else []) @ ways;
                 href = ''N '' @ str_int ped_index @ '' '' @ rellist_str rellist;
                 outstr = SimpleStringBuffer_add outstr
                            (tabs @ ''<a href="'' @ href @ ''">'' @ relstr @ ''</a>'' @ NL)
             in rels_loop e ped_index rel half generations active_gender count
                  (TAB @ TAB @ TAB) outstr rest))\<close>

definition format_common_anc_rels ::
  "env \<Rightarrow> int \<Rightarrow> rel \<Rightarrow> bool \<Rightarrow> int \<Rightarrow> gender \<Rightarrow> gender \<Rightarrow> py_error + string" where
  "format_common_anc_rels e ped_index rel half generations active_gender spouse_gender =
     (let outstr = SimpleStringBuffer_init None;
          relnums = map fst rel;
          plural = (length relnums > 1);
          outstr = (if plural
                    then SimpleStringBuffer_add outstr (TAB @ ''<b>'' @ MSG_RELATIONSHIPS @ ''</b> '')
                    else SimpleStringBuffer_add outstr (TAB @ ''<b>'' @ MSG_RELATIONSHIP @ ''</b> ''));
          tabs = (if plural then NL @ TAB @ TAB @ TAB else [])
      in bind_err (rels_loop e ped_index rel half generations active_gender 0 tabs outstr relnums)
           (\<lambda>outstr. Inr (SimpleStringBuffer_str outstr)))"

text \<open>
  \<^verbatim>\<open>get_pedigree_collapse(self)\<close>. \<open>class_loop\<close> is the loop over
  \<^verbatim>\<open>ordered_anc.items()\<close>, \<open>collapse_body\<close> the body of the loop over the sorted
  keys after its limit test, \<open>collapse_loop\<close> that loop with its counter.
\<close>

fun class_loop ::
  "env \<Rightarrow> 'c ConsFormatter \<Rightarrow> int \<Rightarrow> SimpleStringBuffer \<Rightarrow> (int list \<times> rel) list
     \<Rightarrow> py_error + SimpleStringBuffer" where
  "class_loop e f gens outstr [] = Inr outstr"
| "class_loop e f gens outstr ((primnums, ancs) # rest) =
     (case format_common_anc_rels e 0 ancs (if length primnums = 1 then True else False)
             gens MALE FEMALE of
        Inl er \<Rightarrow> Inl er
      | Inr s1 \<Rightarrow>
          (case format_common_ancestor_names e (self_db f) (self_pedigree f) primnums of
             Inl er \<Rightarrow> Inl er
           | Inr s2 \<Rightarrow>
               class_loop e f gens
                 (SimpleStringBuffer_add (SimpleStringBuffer_add outstr s1) s2) rest))"

definition collapse_body ::
  "env \<Rightarrow> 'c ConsFormatter \<Rightarrow> (int \<times> 'c) list \<Rightarrow> SimpleStringBuffer \<Rightarrow> int
     \<Rightarrow> py_error + SimpleStringBuffer" where
  "collapse_body e f ped_collapse outstr descnum =
     bind_err (dict_get ped_collapse descnum) (\<lambda>comm_anc.
     bind_err (ancestor_handle (self_pedigree f) (descnum * 2)) (\<lambda>father_handle.
     bind_err (ancestor_handle (self_pedigree f) (descnum * 2 + 1)) (\<lambda>mother_handle.
     bind_err (py_int_log2 e descnum) (\<lambda>l.
       let gens = l + 1;
           rel = get_plural_relationship_string e gens 0;
           outstr = SimpleStringBuffer_add outstr (''<b>'' @ MSG_PED_COLLAPSE_AT rel @ ''</b>'' @ NL)
       in
     bind_err (format_person e (self_db f) father_handle TAB NL True True False) (\<lambda>s1.
     bind_err (format_person e (self_db f) mother_handle TAB NL True True False) (\<lambda>s2.
       let outstr = SimpleStringBuffer_add (SimpleStringBuffer_add outstr s1) s2;
           ordered_anc = order_ancestor_list (self_pedigree f) comm_anc
       in
     bind_err (class_loop e f gens outstr ordered_anc) (\<lambda>outstr.
       Inr (SimpleStringBuffer_add outstr NL))))))))"

fun collapse_loop ::
  "env \<Rightarrow> 'c ConsFormatter \<Rightarrow> (int \<times> 'c) list \<Rightarrow> nat \<Rightarrow> SimpleStringBuffer \<Rightarrow> int list
     \<Rightarrow> py_error + SimpleStringBuffer" where
  "collapse_loop e f ped_collapse count outstr [] = Inr outstr"
| "collapse_loop e f ped_collapse count outstr (descnum # rest) =
     (let count = count + 1 in
      if count > PED_COLLAPSE_LIMIT
      then Inr (SimpleStringBuffer_add outstr
                  (''<b><i>'' @ MSG_MORE_PED_COLLAPSE @ ''</i></b>'' @ NL))
      else
        (case collapse_body e f ped_collapse outstr descnum of
           Inl er \<Rightarrow> Inl er
         | Inr outstr \<Rightarrow> collapse_loop e f ped_collapse count outstr rest))"

definition get_pedigree_collapse :: "env \<Rightarrow> 'c ConsFormatter \<Rightarrow> py_error + string" where
  "get_pedigree_collapse e f =
     (let outstr = SimpleStringBuffer_init (Some (TITLE_FORMAT MSG_PED_COLLAPSE_ACTIVE @ NL @ NL)) in
      if \<not> has_pedigree_collapse (self_pedigree f)
      then Inr (SimpleStringBuffer_str
                  (SimpleStringBuffer_add outstr (''<i>'' @ MSG_NO_PED_COLLAPSE @ ''</i>'' @ NL @ NL)))
      else
        let ped_collapse = determine_pedigree_collapse (self_pedigree f) None in
        bind_err (collapse_loop e f ped_collapse 0 outstr (sort (map fst ped_collapse)))
          (\<lambda>outstr. Inr (SimpleStringBuffer_str outstr)))"

text \<open>
  \<^verbatim>\<open>get_consanguinity(self)\<close>. \<open>spouse_class_loop\<close> is the loop over
  \<^verbatim>\<open>ordered_anc.items()\<close> with its counter, \<open>spouse_loop\<close> the loop over
  \<^verbatim>\<open>self.spouse_pedigrees\<close>, whose \<^verbatim>\<open>continue\<close> is the recursive call.
\<close>

fun spouse_class_loop ::
  "env \<Rightarrow> 'c ConsFormatter \<Rightarrow> 'c Pedigree \<Rightarrow> int \<Rightarrow> gender \<Rightarrow> nat \<Rightarrow> SimpleStringBuffer
     \<Rightarrow> (int list \<times> rel) list \<Rightarrow> py_error + SimpleStringBuffer" where
  "spouse_class_loop e f spouse_pedigree spouse_num spouse_gender count outstr [] = Inr outstr"
| "spouse_class_loop e f spouse_pedigree spouse_num spouse_gender count outstr
       ((primnums, ancs) # rest) =
     (let count = count + 1 in
      if count > PED_COLLAPSE_LIMIT
      then Inr (SimpleStringBuffer_add outstr
                  (TAB @ ''<b><i>'' @ MSG_MORE_SPOUSE_RELS @ ''</i></b>'' @ NL))
      else
        (case format_common_anc_rels e spouse_num ancs (if length primnums = 1 then True else False)
                1 (self_gender f) spouse_gender of
           Inl er \<Rightarrow> Inl er
         | Inr s1 \<Rightarrow>
             (case format_common_ancestor_names e (self_db f) spouse_pedigree primnums of
                Inl er \<Rightarrow> Inl er
              | Inr s2 \<Rightarrow>
                  spouse_class_loop e f spouse_pedigree spouse_num spouse_gender count
                    (SimpleStringBuffer_add (SimpleStringBuffer_add outstr s1) s2) rest)))"

fun spouse_loop ::
  "env \<Rightarrow> 'c ConsFormatter \<Rightarrow> int \<Rightarrow> SimpleStringBuffer \<Rightarrow> (handle \<times> 'c Pedigree) list
     \<Rightarrow> py_error + SimpleStringBuffer" where
  "spouse_loop e f spouse_num outstr [] = Inr outstr"
| "spouse_loop e f spouse_num outstr ((spouse_handle, spouse_pedigree) # rest) =
     (let spouse_num = spouse_num + 1 in
      case get_person_from_handle (self_db f) spouse_handle of
        Inl er \<Rightarrow> Inl er
      | Inr spouse \<Rightarrow>
          let spouse_gender = person_gender spouse in
          (case format_person e (self_db f) spouse_handle
                  (NL @ ''<b>'' @ MSG_PARTNER @ ''</b> '') NL True True False of
             Inl er \<Rightarrow> Inl er
           | Inr s \<Rightarrow>
               let outstr = SimpleStringBuffer_add outstr s in
               if \<not> has_pedigree_collapse spouse_pedigree
               then spouse_loop e f spouse_num
                      (SimpleStringBuffer_add outstr (TAB @ ''<i>'' @ MSG_NO_COMMON_ANCS @ ''</i>'' @ NL))
                      rest
               else
                 let ped_collapse = determine_pedigree_collapse spouse_pedigree (Some 1) in
                 if ped_collapse = []
                 then spouse_loop e f spouse_num
                        (SimpleStringBuffer_add outstr (TAB @ ''<i>'' @ MSG_NO_COMMON_ANCS @ ''</i>'' @ NL))
                        rest
                 else
                   (case dict_get ped_collapse 1 of
                      Inl er \<Rightarrow> Inl er
                    | Inr comm_anc \<Rightarrow>
                        let ordered_anc = order_ancestor_list spouse_pedigree comm_anc in
                        (case spouse_class_loop e f spouse_pedigree spouse_num spouse_gender 0
                                outstr ordered_anc of
                           Inl er \<Rightarrow> Inl er
                         | Inr outstr \<Rightarrow> spouse_loop e f spouse_num outstr rest))))"

definition get_consanguinity :: "env \<Rightarrow> 'c ConsFormatter \<Rightarrow> py_error + string" where
  "get_consanguinity e f =
     (let outstr = SimpleStringBuffer_init (Some (TITLE_FORMAT MSG_RELS_BET_ACTIVE_AND_PARTNER @ NL)) in
      if self_spouse_pedigrees f = []
      then Inr (SimpleStringBuffer_str
                  (SimpleStringBuffer_add
                     (SimpleStringBuffer_add
                        (SimpleStringBuffer_add outstr (NL @ ''<i>''))
                        (no_spouses_string e (self_person f)))
                     (''</i>'' @ NL)))
      else
        bind_err (spouse_loop e f 0 outstr (self_spouse_pedigrees f))
          (\<lambda>outstr. Inr (SimpleStringBuffer_str outstr)))"

section \<open>What the loops write, in closed form\<close>

text \<open>
  The loops of the formatter only ever append to their buffer, so each has a closed
  form: the texts of the iterations that run, in order, and the line that reports a
  truncation when the limit cut the loop short. The definitions below say what one
  iteration writes; the theorems further down prove that the loops write exactly that.
\<close>

definition str_of :: "py_error + SimpleStringBuffer \<Rightarrow> py_error + string" where
  "str_of m = bind_err m (\<lambda>outstr. Inr (SimpleStringBuffer_str outstr))"

definition append_chunks :: "SimpleStringBuffer \<Rightarrow> string list \<Rightarrow> SimpleStringBuffer" where
  "append_chunks b ss = b\<lparr>buffer := buffer b @ ss\<rparr>"

definition name_line :: "env \<Rightarrow> db \<Rightarrow> 'c Pedigree \<Rightarrow> int \<Rightarrow> py_error + string" where
  "name_line e d ped anc_num =
     bind_err (ancestor_handle ped anc_num) (\<lambda>h. format_person e d h (TAB @ TAB) NL True True False)"

text \<open>The name of a relationship, and what follows it inside the link: the comma, the
  marker of a half relationship, the number of ways.\<close>

definition rel_name :: "env \<Rightarrow> int \<Rightarrow> gender \<Rightarrow> relnum \<Rightarrow> string" where
  "rel_name e generations active_gender relnum =
     (if active_gender = MALE
      then get_plural_relationship_string e (fst relnum - generations) (snd relnum - generations)
      else get_plural_relationship_string e (snd relnum - generations) (fst relnum - generations))"

definition rel_suffix :: "bool \<Rightarrow> nat \<Rightarrow> string" where
  "rel_suffix half num_rels =
     (if half then '','' @ HALF_MARK else if 1 < num_rels then '','' else [])
     @ (if 1 < num_rels then '' x'' @ str_int (int num_rels) else [])"

definition rel_line ::
  "env \<Rightarrow> int \<Rightarrow> bool \<Rightarrow> int \<Rightarrow> gender \<Rightarrow> string \<Rightarrow> relnum \<times> rel_item list \<Rightarrow> string" where
  \<open>rel_line e ped_index half generations active_gender tabs item =
     (case item of (relnum, rellist) \<Rightarrow>
        tabs @ ''<a href="N '' @ str_int ped_index @ '' '' @ rellist_str rellist @ ''">''
        @ rel_name e generations active_gender relnum
        @ rel_suffix half (length rellist)
        @ ''</a>'' @ NL)\<close>

definition rel_lines ::
  "env \<Rightarrow> int \<Rightarrow> bool \<Rightarrow> int \<Rightarrow> gender \<Rightarrow> string \<Rightarrow> rel \<Rightarrow> string list" where
  "rel_lines e ped_index half generations active_gender tabs items =
     (case items of
        [] \<Rightarrow> []
      | first # rest \<Rightarrow>
          rel_line e ped_index half generations active_gender tabs first
          # map (rel_line e ped_index half generations active_gender (TAB @ TAB @ TAB)) rest)"

definition more_rels_line :: string where
  "more_rels_line = TAB @ TAB @ TAB @ ''<b><i>'' @ MSG_MORE_RELS @ ''</i></b>'' @ NL"

definition rels_text :: "env \<Rightarrow> int \<Rightarrow> rel \<Rightarrow> bool \<Rightarrow> int \<Rightarrow> gender \<Rightarrow> string" where
  "rels_text e ped_index rel half generations active_gender =
     TAB @ ''<b>'' @ (if 1 < length rel then MSG_RELATIONSHIPS else MSG_RELATIONSHIP) @ ''</b> ''
     @ concat (rel_lines e ped_index half generations active_gender
                 (if 1 < length rel then NL @ TAB @ TAB @ TAB else [])
                 (take RELATIONSHIP_LIMIT rel))
     @ (if RELATIONSHIP_LIMIT < length rel then more_rels_line else [])"

definition class_text ::
  "env \<Rightarrow> db \<Rightarrow> 'c Pedigree \<Rightarrow> int \<Rightarrow> int \<Rightarrow> gender \<Rightarrow> int list \<times> rel \<Rightarrow> py_error + string" where
  "class_text e d ped ped_index generations active_gender cls =
     (case cls of (primnums, ancs) \<Rightarrow>
        bind_err (format_common_anc_rels e ped_index ancs (length primnums = 1)
                    generations active_gender FEMALE) (\<lambda>s1.
        bind_err (format_common_ancestor_names e d ped primnums) (\<lambda>s2.
          Inr (s1 @ s2))))"

definition collapse_text ::
  "env \<Rightarrow> 'c ConsFormatter \<Rightarrow> (int \<times> 'c) list \<Rightarrow> int \<Rightarrow> py_error + string" where
  "collapse_text e f ped_collapse descnum =
     bind_err (dict_get ped_collapse descnum) (\<lambda>comm_anc.
     bind_err (ancestor_handle (self_pedigree f) (descnum * 2)) (\<lambda>father_handle.
     bind_err (ancestor_handle (self_pedigree f) (descnum * 2 + 1)) (\<lambda>mother_handle.
     bind_err (py_int_log2 e descnum) (\<lambda>l.
     bind_err (format_person e (self_db f) father_handle TAB NL True True False) (\<lambda>s1.
     bind_err (format_person e (self_db f) mother_handle TAB NL True True False) (\<lambda>s2.
     bind_err (sequence_err (map (class_text e (self_db f) (self_pedigree f) 0 (l + 1) MALE)
                               (order_ancestor_list (self_pedigree f) comm_anc))) (\<lambda>ts.
       Inr (''<b>'' @ MSG_PED_COLLAPSE_AT (get_plural_relationship_string e (l + 1) 0) @ ''</b>'' @ NL
            @ s1 @ s2 @ concat ts @ NL))))))))"

definition more_collapse_line :: string where
  "more_collapse_line = ''<b><i>'' @ MSG_MORE_PED_COLLAPSE @ ''</i></b>'' @ NL"

definition more_spouse_line :: string where
  "more_spouse_line = TAB @ ''<b><i>'' @ MSG_MORE_SPOUSE_RELS @ ''</i></b>'' @ NL"

definition no_common_line :: string where
  "no_common_line = TAB @ ''<i>'' @ MSG_NO_COMMON_ANCS @ ''</i>'' @ NL"

definition spouse_text ::
  "env \<Rightarrow> 'c ConsFormatter \<Rightarrow> int \<Rightarrow> handle \<times> 'c Pedigree \<Rightarrow> py_error + string" where
  "spouse_text e f spouse_num sp =
     (case sp of (spouse_handle, spouse_pedigree) \<Rightarrow>
        bind_err (get_person_from_handle (self_db f) spouse_handle) (\<lambda>spouse.
        bind_err (format_person e (self_db f) spouse_handle
                    (NL @ ''<b>'' @ MSG_PARTNER @ ''</b> '') NL True True False) (\<lambda>s.
          if \<not> has_pedigree_collapse spouse_pedigree then Inr (s @ no_common_line)
          else if determine_pedigree_collapse spouse_pedigree (Some 1) = [] then Inr (s @ no_common_line)
          else
            bind_err (dict_get (determine_pedigree_collapse spouse_pedigree (Some 1)) 1) (\<lambda>comm_anc.
            bind_err (sequence_err
                        (map (class_text e (self_db f) spouse_pedigree spouse_num 1 (self_gender f))
                           (take PED_COLLAPSE_LIMIT (order_ancestor_list spouse_pedigree comm_anc)))) (\<lambda>ts.
              Inr (s @ concat ts
                   @ (if PED_COLLAPSE_LIMIT < length (order_ancestor_list spouse_pedigree comm_anc)
                      then more_spouse_line else [])))))))"

fun spouse_texts ::
  "env \<Rightarrow> 'c ConsFormatter \<Rightarrow> int \<Rightarrow> (handle \<times> 'c Pedigree) list \<Rightarrow> (py_error + string) list" where
  "spouse_texts e f spouse_num [] = []"
| "spouse_texts e f spouse_num (sp # rest) =
     spouse_text e f (spouse_num + 1) sp # spouse_texts e f (spouse_num + 1) rest"

text \<open>Texts are counted by the places where a pattern starts.\<close>

fun count_sub :: "string \<Rightarrow> string \<Rightarrow> nat" where
  "count_sub pat [] = 0"
| "count_sub pat (c # cs) =
     (if take (length pat) (c # cs) = pat then 1 else 0) + count_sub pat cs"

section \<open>Example data\<close>

text \<open>An environment with the plain date symbols of the class, a relationship
  calculator that prints its two arguments, and a logarithm that is exact.\<close>

definition plain_env :: env where
  "plain_env =
     \<lparr>get_plural_relationship_string = (\<lambda>a b. ''rel '' @ str_int a @ '' '' @ str_int b),
      birth_symbol = ''*'', baptism_symbol = ''~'', death_symbol = ''+'', burial_symbol = ''[]'',
      str_upper = (\<lambda>s. s),
      trunc_log2 = (\<lambda>x. int (bit_length (nat x)) - 1),
      trunc_log2_huge = (\<lambda>x. int (bit_length (nat x)) - 1)\<rparr>"

definition nobody :: person where
  "nobody = \<lparr>person_name = ''N. N.'', person_gender = MALE,
             birth_or_fallback = None, death_or_fallback = None\<rparr>"

text \<open>A pedigree with two collapse points and no class of common ancestors under
  either, in a database that knows every non-empty handle.\<close>

definition two_collapses :: "unit Pedigree" where
  "two_collapses =
     \<lparr>has_pedigree_collapse = True,
      determine_pedigree_collapse = (\<lambda>_. [(3, ()), (1, ())]),
      get_ancestor_by_number = (\<lambda>_. Some (Some ''I1'')),
      order_ancestor_list = (\<lambda>_. [])\<rparr>"

definition two_collapses_formatter :: "unit ConsFormatter" where
  "two_collapses_formatter =
     \<lparr>self_db = (\<lambda>h. if truthy h then Some nobody else None),
      self_person_handle = Some ''I0'', self_pedigree = two_collapses,
      self_spouse_pedigrees = [], self_person = nobody, self_gender = MALE\<rparr>"

section \<open>Properties of the string buffer\<close>

lemma obj_add_all_closed_form:
  "obj_add_all h r ss = (h(r := (h r)\<lparr>buffer := buffer (h r) @ ss\<rparr>), r)"
proof (induction ss arbitrary: h)
  case Nil
  show ?case by simp
next
  case (Cons s ss)
  show ?case
    by (auto simp: Cons.IH obj_add_def SimpleStringBuffer_add_def fun_eq_iff)
qed

lemma str_init: "SimpleStringBuffer_str (SimpleStringBuffer_init s) = (case s of None \<Rightarrow> [] | Some t \<Rightarrow> t)"
  by (simp add: SimpleStringBuffer_str_def SimpleStringBuffer_init_def split: option.splits)

text \<open>
  Claim C10. Whatever the initial string and whatever strings are appended, the buffer
  converts to the initial string (when one is given) followed by the appended strings
  in the order of their appending. \<^verbatim>\<open>__add__\<close> returns the reference it was called
  on, and after \<^verbatim>\<open>c = a + s\<close> the left operand \<^verbatim>\<open>a\<close> itself reads as its old
  contents followed by \<^verbatim>\<open>s\<close>: the operator mutates it and creates nothing.
\<close>

theorem SimpleStringBuffer_concat_and_alias:
  "obj_str (fst (obj_add_all (obj_init h r init) r ss)) r
     = (case init of None \<Rightarrow> [] | Some t \<Rightarrow> t) @ concat ss
   \<and> snd (obj_add_all (obj_init h r init) r ss) = r
   \<and> snd (obj_add h a s) = a
   \<and> obj_str (fst (obj_add h a s)) a = obj_str h a @ s
   \<and> buffer (fst (obj_add h a s) a) = buffer (h a) @ [s]"
proof -
  have "obj_str (fst (obj_add_all (obj_init h r init) r ss)) r
          = SimpleStringBuffer_str (SimpleStringBuffer_init init) @ concat ss"
    by (simp add: obj_add_all_closed_form obj_str_def obj_init_def SimpleStringBuffer_str_def)
  then have first: "obj_str (fst (obj_add_all (obj_init h r init) r ss)) r
          = (case init of None \<Rightarrow> [] | Some t \<Rightarrow> t) @ concat ss"
    by (simp only: str_init)
  have second: "snd (obj_add_all (obj_init h r init) r ss) = r"
    by (simp add: obj_add_all_closed_form)
  have rest: "snd (obj_add h a s) = a
      \<and> obj_str (fst (obj_add h a s)) a = obj_str h a @ s
      \<and> buffer (fst (obj_add h a s) a) = buffer (h a) @ [s]"
    by (simp add: obj_add_def obj_str_def SimpleStringBuffer_str_def SimpleStringBuffer_add_def)
  from first second rest show ?thesis by simp
qed

theorem SimpleStringBuffer_concat_and_alias_witness:
  "obj_str (fst (obj_add_all (obj_init (\<lambda>_. \<lparr>buffer = [''x'']\<rparr>) 0 (Some ''ab'')) 0 [''c'', '''', ''de''])) 0
     = ''abcde''
   \<and> snd (obj_add (\<lambda>_. \<lparr>buffer = [''x'']\<rparr>) 7 ''y'') = 7
   \<and> obj_str (fst (obj_add (\<lambda>_. \<lparr>buffer = [''x'']\<rparr>) 7 ''y'')) 7 = ''xy''"
  using SimpleStringBuffer_concat_and_alias
    [of "\<lambda>_. \<lparr>buffer = [''x'']\<rparr>" 0 "Some ''ab''" "[''c'', '''', ''de'']" 7 "''y''"]
  by (simp add: obj_str_def SimpleStringBuffer_str_def)

end
